theory Spec2Isabelle
  imports Complex_Main "HOL-Library.Char_ord" "HOL-Library.List_Lexorder"
begin

section \<open>Strings\<close>

text \<open>
  Python strings are modelled as \<open>string\<close>, one \<open>char\<close> per code point below 256.
  \<open>isspace\<close> lists the code points in that range that \<^verbatim>\<open>str.strip()\<close> removes:
  U+0009..U+000D, U+001C..U+001F, U+0020, U+0085 and U+00A0.
\<close>

definition isspace :: "char \<Rightarrow> bool" where
  "isspace c =
     (let n = (of_char c :: nat)
      in (9 \<le> n \<and> n \<le> 13) \<or> (28 \<le> n \<and> n \<le> 32) \<or> n = 133 \<or> n = 160)"

definition strip :: "string \<Rightarrow> string" where
  "strip s = rev (dropWhile isspace (rev (dropWhile isspace s)))"

text \<open>\<^verbatim>\<open>sep.join(xs)\<close>\<close>

fun join :: "string \<Rightarrow> string list \<Rightarrow> string" where
  "join sep [] = []"
| "join sep [x] = x"
| "join sep (x # y # ys) = x @ sep @ join sep (y # ys)"

text \<open>\<^verbatim>\<open>s.split("/")[-1]\<close>: the part of \<open>s\<close> after its last slash, all of \<open>s\<close> when it has none.\<close>

definition last_segment :: "string \<Rightarrow> string" where
  "last_segment s = rev (takeWhile (\<lambda>c. c \<noteq> CHR ''/'') (rev s))"

text \<open>\<^verbatim>\<open>sorted({...})\<close> over strings: duplicates dropped, code-point order.\<close>

definition sorted_set :: "string list \<Rightarrow> string list" where
  "sorted_set xs = sort (remdups xs)"

section \<open>The remote endpoints and the other collaborators\<close>

text \<open>
  An answer of \<^verbatim>\<open>requests.get\<close>: \<open>NoReply\<close> when the call itself raises (timeout,
  connection error), otherwise the status code and the decoded body; the body is \<open>None\<close>
  when decoding it or reading the expected keys from it raises.
\<close>

datatype 'a reply = NoReply | Reply nat "'a option"

text \<open>An element of the \<^verbatim>\<open>search\<close> list: a JSON object with its optional keys, or anything else.\<close>

record entity =
  e_label :: "string option"
  e_id :: "string option"
  e_aliases :: "string list option"

datatype candidate = Obj entity | NonObj

text \<open>A SPARQL binding: the \<^verbatim>\<open>value\<close> under each of the four keys, when the key is there.\<close>

record binding =
  p31 :: "string option"
  p31Label :: "string option"
  p279 :: "string option"
  p279Label :: "string option"

text \<open>
  One entry of an entity's \<^verbatim>\<open>sitelinks\<close> (its \<^verbatim>\<open>url\<close> key may be missing), and the
  entity document of \<^verbatim>\<open>wbgetentities\<close> (its \<^verbatim>\<open>sitelinks\<close> key may be missing).
\<close>

datatype sitelink = Sitelink (url: "string option")

datatype entity_doc = EntityDoc (sitelinks: "(string \<rightharpoonup> sitelink) option")

text \<open>
  Everything the program does not define itself is a field of the environment: the
  answers of the four requests (by their parameters; the SPARQL answer also by the
  attempt number), \<^verbatim>\<open>rapidfuzz.fuzz.token_sort_ratio\<close>, the text \<^verbatim>\<open>csv.writer\<close> gives a
  number, and whether \<^verbatim>\<open>writerow\<close> accepts a row (it raises otherwise, for instance
  UnicodeEncodeError on a lone surrogate).
\<close>

record env =
  search_reply :: "string \<Rightarrow> string \<Rightarrow> nat \<Rightarrow> candidate list option reply"
  label_reply :: "string \<Rightarrow> string option reply"
  sparql_reply :: "string \<Rightarrow> string \<Rightarrow> nat \<Rightarrow> binding list reply"
  sitelinks_reply :: "string \<Rightarrow> (string \<rightharpoonup> entity_doc) reply"
  token_sort_ratio :: "string \<Rightarrow> string \<Rightarrow> real"
  number_text :: "real \<Rightarrow> string"
  writable :: "string list \<Rightarrow> bool"

text \<open>What a call leaves behind besides its result: requests sent, sleeps, log lines.\<close>

datatype api = Search | Labels | Sparql | Sitelinks

datatype level = Info | Warning | Error

datatype event = Request api string | Sleep real | Log level string

text \<open>\<^verbatim>\<open>raise_for_status\<close> raises on a 4xx or 5xx status.\<close>

definition is_error_status :: "nat \<Rightarrow> bool" where
  "is_error_status status = (400 \<le> status \<and> status < 600)"

section \<open>The Taxonomy Enricher: \<^verbatim>\<open>get_instances_and_subclasses\<close>\<close>

type_synonym taxonomy = "string list \<times> string list \<times> string list \<times> string list"

definition parse_bindings :: "binding list \<Rightarrow> taxonomy" where
  "parse_bindings results =
     (sorted_set (map last_segment (List.map_filter p31 results)),
      sorted_set (List.map_filter p31Label results),
      sorted_set (map last_segment (List.map_filter p279 results)),
      sorted_set (List.map_filter p279Label results))"

text \<open>
  The body of the \<^verbatim>\<open>try\<close> of one attempt, after the request: \<open>RateLimited\<close> for the
  429 branch, \<open>Failed\<close> when the request, \<^verbatim>\<open>raise_for_status\<close> or the parsing raises,
  \<open>Parsed\<close> for the \<^verbatim>\<open>return\<close>.
\<close>

datatype outcome = RateLimited | Failed | Parsed taxonomy

definition attempt_outcome :: "binding list reply \<Rightarrow> outcome" where
  "attempt_outcome r =
     (case r of
        NoReply \<Rightarrow> Failed
      | Reply status body \<Rightarrow>
          if status = 429 then RateLimited
          else if is_error_status status then Failed
          else (case body of None \<Rightarrow> Failed | Some results \<Rightarrow> Parsed (parse_bindings results)))"

text \<open>
  The loop \<^verbatim>\<open>for attempt in range(max_retries)\<close>, over the attempt numbers still to
  run; the empty list is the fall-through to \<^verbatim>\<open>return [], [], [], []\<close>.
\<close>

fun retry_loop :: "env \<Rightarrow> string \<Rightarrow> string \<Rightarrow> nat \<Rightarrow> nat list \<Rightarrow> taxonomy \<times> event list" where
  "retry_loop E qid language max_retries [] = (([], [], [], []), [])"
| "retry_loop E qid language max_retries (attempt # rest) =
     (case attempt_outcome (sparql_reply E qid language attempt) of
        RateLimited \<Rightarrow>
          (let (res, evs) = retry_loop E qid language max_retries rest
           in (res, [Request Sparql qid, Log Warning qid, Sleep 10] @ evs))
      | Parsed res \<Rightarrow> (res, [Request Sparql qid, Sleep (1 / 2)])
      | Failed \<Rightarrow>
          (let (res, evs) = retry_loop E qid language max_retries rest
           in (res, [Request Sparql qid, Log Error qid]
                    @ (if attempt < max_retries - 1 then [Sleep (2 ^ attempt)] else [])
                    @ evs)))"

definition get_instances_and_subclasses :: "env \<Rightarrow> string \<Rightarrow> string \<Rightarrow> taxonomy \<times> event list" where
  "get_instances_and_subclasses E qid language = retry_loop E qid language 3 [0..<3]"

text \<open>Measures on a trace: requests sent to one endpoint, seconds slept.\<close>

definition requests_to :: "api \<Rightarrow> event list \<Rightarrow> nat" where
  "requests_to a evs = length (filter (\<lambda>e. case e of Request b _ \<Rightarrow> b = a | _ \<Rightarrow> False) evs)"

definition total_sleep :: "event list \<Rightarrow> real" where
  "total_sleep evs = sum_list (map (\<lambda>e. case e of Sleep d \<Rightarrow> d | _ \<Rightarrow> 0) evs)"

section \<open>The Entity Search Client: \<^verbatim>\<open>search_wikidata_entities\<close>\<close>

definition search_wikidata_entities ::
  "env \<Rightarrow> string \<Rightarrow> string \<Rightarrow> nat \<Rightarrow> candidate list \<times> event list" where
  "search_wikidata_entities E keyword language limit =
     (case search_reply E keyword language limit of
        NoReply \<Rightarrow> ([], [Request Search keyword, Log Error keyword])
      | Reply status body \<Rightarrow>
          if is_error_status status then ([], [Request Search keyword, Log Error keyword])
          else (case body of
                  None \<Rightarrow> ([], [Request Search keyword, Log Error keyword])
                | Some found \<Rightarrow>
                    ((case found of None \<Rightarrow> [] | Some ents \<Rightarrow> ents), [Request Search keyword])))"

section \<open>The Link Resolver: \<^verbatim>\<open>get_wikipedia_link\<close>\<close>

text \<open>
  The result is a Python value that is a string or \<^verbatim>\<open>None\<close>: \<open>Some u\<close> is the string
  \<open>u\<close>, \<open>None\<close> is \<^verbatim>\<open>None\<close>, which \<^verbatim>\<open>dict.get("url")\<close> returns for a missing key.
\<close>

definition get_wikipedia_link :: "env \<Rightarrow> string \<Rightarrow> string \<Rightarrow> string option \<times> event list" where
  "get_wikipedia_link E qid language =
     (case sitelinks_reply E qid of
        NoReply \<Rightarrow> (Some [], [Request Sitelinks qid, Log Error qid])
      | Reply status body \<Rightarrow>
          if is_error_status status then (Some [], [Request Sitelinks qid, Log Error qid])
          else (case body of
                  None \<Rightarrow> (Some [], [Request Sitelinks qid, Log Error qid])
                | Some entities \<Rightarrow>
                    (let links = (case entities qid of
                                    None \<Rightarrow> Map.empty
                                  | Some doc \<Rightarrow>
                                      (case sitelinks doc of None \<Rightarrow> Map.empty | Some l \<Rightarrow> l));
                         site_key = language @ ''wiki''
                     in (case links site_key of
                           Some link \<Rightarrow> (url link, [Request Sitelinks qid])
                         | None \<Rightarrow> (Some [], [Request Sitelinks qid])))))"

section \<open>The Label Resolver and the Fuzzy Scorer\<close>

text \<open>The fallback request inside the candidate loop, with its own \<^verbatim>\<open>try\<close>.\<close>

definition label_fallback :: "env \<Rightarrow> string \<Rightarrow> string \<times> event list" where
  "label_fallback E qid =
     (case label_reply E qid of
        NoReply \<Rightarrow> ([], [Request Labels qid, Log Error qid])
      | Reply status body \<Rightarrow>
          if is_error_status status then ([], [Request Labels qid, Log Error qid])
          else (case body of
                  None \<Rightarrow> ([], [Request Labels qid, Log Error qid])
                | Some v \<Rightarrow> ((case v of None \<Rightarrow> [] | Some l \<Rightarrow> l), [Request Labels qid])))"

text \<open>\<^verbatim>\<open>max\<close> of a non-empty Python list, given as its first element and the rest.\<close>

definition list_max :: "real \<Rightarrow> real list \<Rightarrow> real" where
  "list_max x xs = fold max xs x"

definition best_score :: "env \<Rightarrow> string \<Rightarrow> string \<Rightarrow> string list \<Rightarrow> real" where
  "best_score E keyword label aliases =
     (let score_label = (if label \<noteq> [] then token_sort_ratio E keyword label else 0);
          scores_aliases = map (token_sort_ratio E keyword) aliases
      in if label \<noteq> [] \<or> aliases \<noteq> [] then list_max score_label scores_aliases else 0)"

section \<open>Partition files\<close>

text \<open>
  A CSV file is the sequence of rows \<^verbatim>\<open>csv.reader\<close> yields for it, each row the list
  of its fields; \<open>[]\<close> is an empty line. Its text is empty or ends with a line break, as
  every line \<^verbatim>\<open>csv.writer\<close> writes does, so an appended row is a line of its own; the
  two partitions are two different files.

  Reading a file that exists may raise, and the file still takes appended rows. Its
  condition says how: \<open>reader_fails_after\<close> is the number of rows \<^verbatim>\<open>csv.reader\<close> yields
  before it raises (0 when \<^verbatim>\<open>open(csv_file, 'r')\<close> raises already), \<open>None\<close> when it
  reaches the end; \<open>read_fails\<close> says whether \<^verbatim>\<open>f.read()\<close> of the whole file (or the
  \<^verbatim>\<open>open\<close> before it) raises.
\<close>

type_synonym row = "string list"

datatype condition = Condition (reader_fails_after: "nat option") (read_fails: bool)

abbreviation sound :: condition where
  "sound \<equiv> Condition None False"

datatype csv_file = Absent | Present condition "row list"

fun content :: "csv_file \<Rightarrow> row list" where
  "content Absent = []"
| "content (Present c rows) = rows"

text \<open>A partition that did not exist is created by \<^verbatim>\<open>open(..., 'a')\<close>.\<close>

fun condition_of :: "csv_file \<Rightarrow> condition" where
  "condition_of Absent = sound"
| "condition_of (Present c rows) = c"

text \<open>The rows \<^verbatim>\<open>csv.reader\<close> yields for a file before it raises, if it does.\<close>

fun rows_read :: "csv_file \<Rightarrow> row list" where
  "rows_read Absent = []"
| "rows_read (Present c rows) =
     (case reader_fails_after c of None \<Rightarrow> rows | Some n \<Rightarrow> take n rows)"

definition header_row :: row where
  "header_row =
     [''Keyword'', ''Wikidata_QID'', ''Wikidata_Label'', ''Match_Score'',
      ''Instances_QIDs'', ''Instances_Labels'',
      ''Subclasses_QIDs'', ''Subclasses_Labels'',
      ''Wikipedia_English_Link'']"

text \<open>
  Whether the line of a row is whitespace only, the row taken as \<^verbatim>\<open>csv.writer\<close>
  writes it: an empty line, or one unquoted field of whitespace (a field that is empty
  or holds a line break is written in quotes).
\<close>

definition blank_row :: "row \<Rightarrow> bool" where
  "blank_row r =
     (case r of
        [] \<Rightarrow> True
      | [w] \<Rightarrow> w \<noteq> [] \<and> list_all isspace w \<and> CHR 0x0A \<notin> set w \<and> CHR 0x0D \<notin> set w
      | _ \<Rightarrow> False)"

text \<open>
  The body of \<^verbatim>\<open>for csv_file in [matched_csv, unmatched_csv]\<close>: the first row is
  skipped, the keywords of the rows read after it are added to the set one by one, and
  an exception on the way is logged; what was added before it stays.
\<close>

definition get_file_keywords :: "csv_file \<Rightarrow> string set \<times> event list" where
  "get_file_keywords f =
     (case f of
        Absent \<Rightarrow> ({}, [])
      | Present c rows \<Rightarrow>
          (set (map (\<lambda>row. strip (hd row)) (filter (\<lambda>row. row \<noteq> []) (drop 1 (rows_read f)))),
           if reader_fails_after c = None then [] else [Log Error ''csv_file'']))"

definition get_processed_keywords :: "csv_file \<Rightarrow> csv_file \<Rightarrow> string set \<times> event list" where
  "get_processed_keywords matched_csv unmatched_csv =
     (let (k1, ev1) = get_file_keywords matched_csv;
          (k2, ev2) = get_file_keywords unmatched_csv
      in (k1 \<union> k2, ev1 @ ev2))"

definition should_write_header :: "csv_file \<Rightarrow> bool" where
  "should_write_header f =
     (case f of
        Absent \<Rightarrow> True
      | Present c rows \<Rightarrow> if read_fails c then True else list_all blank_row rows)"

text \<open>
  A file open for appending: what is on disk and what \<^verbatim>\<open>writerow\<close> has handed over
  since the last \<^verbatim>\<open>flush\<close>.
\<close>

record handle =
  cond :: condition
  disk :: "row list"
  pending :: "row list"

definition open_append :: "csv_file \<Rightarrow> handle" where
  "open_append f = \<lparr>cond = condition_of f, disk = content f, pending = []\<rparr>"

definition flush :: "handle \<Rightarrow> handle" where
  "flush h = h\<lparr>disk := disk h @ pending h, pending := []\<rparr>"

definition close :: "handle \<Rightarrow> csv_file" where
  "close h = Present (cond h) (disk h @ pending h)"

datatype exn = AttributeError | WriteError

text \<open>
  \<^verbatim>\<open>for row_data in items: writer.writerow(row_data)\<close>: the first row that
  \<^verbatim>\<open>writerow\<close> refuses raises, and the rows before it stay handed over.
\<close>

fun write_rows :: "env \<Rightarrow> handle \<Rightarrow> row list \<Rightarrow> exn option \<times> handle" where
  "write_rows E h [] = (None, h)"
| "write_rows E h (r # rs) =
     (if writable E r then write_rows E (h\<lparr>pending := pending h @ [r]\<rparr>) rs
      else (Some WriteError, h))"

section \<open>The Resumable Pipeline Driver: \<^verbatim>\<open>process_keywords\<close>\<close>

text \<open>
  The body of \<^verbatim>\<open>for ent in entities\<close> for a candidate that is a JSON object: its
  score and its result row. \<^verbatim>\<open>csv.writer\<close> writes a link that is \<^verbatim>\<open>None\<close> as the
  empty field.
\<close>

definition entity_result :: "env \<Rightarrow> string \<Rightarrow> entity \<Rightarrow> (real \<times> row) \<times> event list" where
  "entity_result E keyword ent =
     (let label0 = (case e_label ent of None \<Rightarrow> [] | Some l \<Rightarrow> l);
          qid = (case e_id ent of None \<Rightarrow> [] | Some q \<Rightarrow> q);
          (label, ev1) = (if label0 = [] \<and> qid \<noteq> [] then label_fallback E qid else (label0, []));
          aliases = (case e_aliases ent of None \<Rightarrow> [] | Some a \<Rightarrow> a);
          score = best_score E keyword label aliases;
          ((inst_qids, inst_labels, sub_qids, sub_labels), ev2) =
             get_instances_and_subclasses E qid ''en'';
          (wiki_link, ev3) = get_wikipedia_link E qid ''en'';
          result_row =
            [keyword, qid, label, number_text E score,
             join ''; '' inst_qids, join ''; '' inst_labels,
             join ''; '' sub_qids, join ''; '' sub_labels,
             (case wiki_link of None \<Rightarrow> [] | Some u \<Rightarrow> u)]
      in ((score, result_row), ev1 @ ev2 @ ev3))"

text \<open>\<^verbatim>\<open>ent.get\<close> raises AttributeError on a candidate that is not an object.\<close>

definition resolve_candidate ::
  "env \<Rightarrow> string \<Rightarrow> candidate \<Rightarrow> (exn + real \<times> row) \<times> event list" where
  "resolve_candidate E keyword c =
     (case c of
        NonObj \<Rightarrow> (Inl AttributeError, [])
      | Obj ent \<Rightarrow> (let (res, evs) = entity_result E keyword ent in (Inr res, evs)))"

text \<open>
  The candidate loop with its two accumulators; an exception leaves the loop with the
  events so far.
\<close>

fun resolve_entities ::
  "env \<Rightarrow> string \<Rightarrow> real \<Rightarrow> candidate list \<Rightarrow> row list \<Rightarrow> row list
   \<Rightarrow> (exn + row list \<times> row list) \<times> event list" where
  "resolve_entities E keyword min_score [] matched_items unmatched_items =
     (Inr (matched_items, unmatched_items), [])"
| "resolve_entities E keyword min_score (c # rest) matched_items unmatched_items =
     (case resolve_candidate E keyword c of
        (Inl e, evs) \<Rightarrow> (Inl e, evs)
      | (Inr (score, result_row), evs) \<Rightarrow>
          (let (res, evs') =
                 (if score \<ge> min_score
                  then resolve_entities E keyword min_score rest
                         (matched_items @ [result_row]) unmatched_items
                  else resolve_entities E keyword min_score rest
                         matched_items (unmatched_items @ [result_row]))
           in (res, evs @ evs')))"

record state =
  matchedfile :: handle
  unmatchedfile :: handle
  processed_count :: nat
  skipped_count :: nat
  trace :: "event list"

text \<open>The \<^verbatim>\<open>try\<close> block of one keyword with its \<^verbatim>\<open>except Exception\<close>.\<close>

definition process_keyword :: "env \<Rightarrow> nat \<Rightarrow> real \<Rightarrow> string \<Rightarrow> state \<Rightarrow> state" where
  "process_keyword E wikidata_limit min_score keyword s =
     (let (entities, ev1) = search_wikidata_entities E keyword ''en'' wikidata_limit;
          (res, ev2) = resolve_entities E keyword min_score entities [] [];
          s1 = s\<lparr>trace := trace s @ ev1 @ ev2\<rparr>
      in case res of
           Inl e \<Rightarrow> s1\<lparr>trace := trace s1 @ [Log Error keyword]\<rparr>
         | Inr (matched_items, unmatched_items) \<Rightarrow>
             if matched_items \<noteq> [] then
               (case write_rows E (matchedfile s1) matched_items of
                  (Some e, h) \<Rightarrow> s1\<lparr>matchedfile := h, trace := trace s1 @ [Log Error keyword]\<rparr>
                | (None, h) \<Rightarrow>
                    s1\<lparr>matchedfile := flush h,
                       processed_count := processed_count s1 + 1,
                       trace := trace s1 @ [Log Info keyword]\<rparr>)
             else if unmatched_items \<noteq> [] then
               (case write_rows E (unmatchedfile s1) unmatched_items of
                  (Some e, h) \<Rightarrow> s1\<lparr>unmatchedfile := h, trace := trace s1 @ [Log Error keyword]\<rparr>
                | (None, h) \<Rightarrow>
                    s1\<lparr>unmatchedfile := flush h,
                       processed_count := processed_count s1 + 1,
                       trace := trace s1 @ [Log Info keyword]\<rparr>)
             else s1\<lparr>processed_count := processed_count s1 + 1,
                     trace := trace s1 @ [Log Info keyword]\<rparr>)"

text \<open>The body of \<^verbatim>\<open>for row in reader\<close>, and the loop.\<close>

definition process_row ::
  "env \<Rightarrow> nat \<Rightarrow> real \<Rightarrow> string set \<Rightarrow> row \<Rightarrow> state \<Rightarrow> state" where
  "process_row E wikidata_limit min_score processed_keywords row s =
     (if row = [] then s
      else (let keyword = strip (hd row)
            in if keyword = [] then s
               else if keyword \<in> processed_keywords
                    then s\<lparr>skipped_count := skipped_count s + 1\<rparr>
                    else process_keyword E wikidata_limit min_score keyword s))"

definition process_rows ::
  "env \<Rightarrow> nat \<Rightarrow> real \<Rightarrow> string set \<Rightarrow> row list \<Rightarrow> state \<Rightarrow> state" where
  "process_rows E wikidata_limit min_score processed_keywords rows s =
     fold (process_row E wikidata_limit min_score processed_keywords) rows s"

text \<open>Opening a partition and writing its header when \<^verbatim>\<open>should_write_header\<close> said so.\<close>

definition open_partition :: "csv_file \<Rightarrow> handle" where
  "open_partition f =
     (let write_header = should_write_header f;
          h = open_append f
      in if write_header then flush (h\<lparr>pending := pending h @ [header_row]\<rparr>) else h)"

text \<open>What a run leaves: the two files after they are closed, the counters, the trace.\<close>

record outcome_of_run =
  matched_csv :: csv_file
  unmatched_csv :: csv_file
  processed :: nat
  skipped :: nat
  events :: "event list"

definition process_keywords ::
  "env \<Rightarrow> row list \<Rightarrow> csv_file \<Rightarrow> csv_file \<Rightarrow> nat \<Rightarrow> real \<Rightarrow> outcome_of_run" where
  "process_keywords E input_csv matched unmatched wikidata_limit min_score =
     (let (processed_keywords, ev0) = get_processed_keywords matched unmatched;
          s0 = \<lparr>matchedfile = open_partition matched,
                unmatchedfile = open_partition unmatched,
                processed_count = 0, skipped_count = 0,
                trace = ev0 @ [Log Info ''start'']\<rparr>;
          s = process_rows E wikidata_limit min_score processed_keywords input_csv s0
      in \<lparr>matched_csv = close (matchedfile s),
          unmatched_csv = close (unmatchedfile s),
          processed = processed_count s, skipped = skipped_count s,
          events = trace s @ [Log Info ''complete'']\<rparr>)"

text \<open>
  The state of a run of \<^verbatim>\<open>process_keywords\<close> once the loop has gone through the rows
  \<open>rows\<close> of its input.
\<close>

definition run_state ::
  "env \<Rightarrow> row list \<Rightarrow> csv_file \<Rightarrow> csv_file \<Rightarrow> nat \<Rightarrow> real \<Rightarrow> state" where
  "run_state E rows matched unmatched wikidata_limit min_score =
     process_rows E wikidata_limit min_score (fst (get_processed_keywords matched unmatched)) rows
       \<lparr>matchedfile = open_partition matched,
        unmatchedfile = open_partition unmatched,
        processed_count = 0, skipped_count = 0,
        trace = snd (get_processed_keywords matched unmatched) @ [Log Info ''start'']\<rparr>"

text \<open>Successive runs on the same two partition files, each with its own environment and input.\<close>

fun runs ::
  "(env \<times> row list \<times> nat \<times> real) list \<Rightarrow> csv_file \<times> csv_file \<Rightarrow> csv_file \<times> csv_file" where
  "runs [] files = files"
| "runs ((E, input_csv, wikidata_limit, min_score) # later) (matched, unmatched) =
     (let r = process_keywords E input_csv matched unmatched wikidata_limit min_score
      in runs later (matched_csv r, unmatched_csv r))"

definition count_headers :: "csv_file \<Rightarrow> nat" where
  "count_headers f = length (filter (\<lambda>r. r = header_row) (content f))"

text \<open>
  The records a keyword's candidates give, in candidate order, and their split at the
  threshold: what the two accumulators hold when no candidate raises.
\<close>

definition scored :: "env \<Rightarrow> string \<Rightarrow> entity list \<Rightarrow> (real \<times> row) list" where
  "scored E keyword ents = map (\<lambda>ent. fst (entity_result E keyword ent)) ents"

definition matched_records :: "env \<Rightarrow> string \<Rightarrow> real \<Rightarrow> entity list \<Rightarrow> row list" where
  "matched_records E keyword min_score ents =
     map snd (filter (\<lambda>(score, r). score \<ge> min_score) (scored E keyword ents))"

definition unmatched_records :: "env \<Rightarrow> string \<Rightarrow> real \<Rightarrow> entity list \<Rightarrow> row list" where
  "unmatched_records E keyword min_score ents =
     map snd (filter (\<lambda>(score, r). \<not> score \<ge> min_score) (scored E keyword ents))"

section \<open>Sample inputs\<close>

definition python_entity :: entity where
  "python_entity = \<lparr>e_label = Some ''Python'', e_id = Some ''Q28865'',
                     e_aliases = Some [''Python (programming language)'']\<rparr>"

definition snake_entity :: entity where
  "snake_entity = \<lparr>e_label = Some ''Pythonidae'', e_id = Some ''Q2102'', e_aliases = None\<rparr>"

definition python_film :: entity where
  "python_film = \<lparr>e_label = Some ''Python'', e_id = Some ''Q15721'', e_aliases = None\<rparr>"

text \<open>
  An environment where every endpoint answers, the similarity is 100 or 66.67, and
  \<^verbatim>\<open>writerow\<close> refuses the rows of one entity.
\<close>

definition sample_env :: env where
  "sample_env =
     \<lparr>search_reply = (\<lambda>keyword language limit.
          if keyword = ''Python'' then Reply 200 (Some (Some [Obj python_entity, Obj snake_entity]))
          else if keyword = ''Monty'' then Reply 200 (Some (Some [Obj python_entity, Obj python_film]))
          else if keyword = ''broken'' then Reply 200 (Some (Some [Obj python_entity, NonObj]))
          else if keyword = ''xyzzy123'' then Reply 200 (Some (Some []))
          else NoReply),
      label_reply = (\<lambda>qid. NoReply),
      sparql_reply = (\<lambda>qid language attempt. Reply 200 (Some [])),
      sitelinks_reply = (\<lambda>qid. Reply 200 (Some Map.empty)),
      token_sort_ratio = (\<lambda>s1 s2. if s1 = s2 \<or> s1 = ''Monty'' then 100 else 200 / 3),
      number_text = (\<lambda>x. if x = 100 then ''100.0'' else ''66.66666666666667''),
      writable = (\<lambda>r. ''Q15721'' \<notin> set r)\<rparr>"

definition human_binding :: binding where
  "human_binding = \<lparr>p31 = Some ''http://www.wikidata.org/entity/Q5'', p31Label = Some ''human'',
                     p279 = None, p279Label = None\<rparr>"

text \<open>The graph-query endpoint down, and rate-limiting twice before it answers.\<close>

definition offline_env :: env where
  "offline_env = sample_env\<lparr>sparql_reply := (\<lambda>qid language attempt. NoReply)\<rparr>"

definition throttled_env :: env where
  "throttled_env =
     sample_env\<lparr>sparql_reply := (\<lambda>qid language attempt.
       if attempt < 2 then Reply 429 None else Reply 200 (Some [human_binding, human_binding]))\<rparr>"

text \<open>The state of a run right after both partitions were created with their headers.\<close>

definition fresh :: state where
  "fresh = \<lparr>matchedfile = open_partition Absent, unmatchedfile = open_partition Absent,
            processed_count = 0, skipped_count = 0, trace = []\<rparr>"

text \<open>A similarity that only takes whole values, and a sitelink entry without \<^verbatim>\<open>url\<close>.\<close>

definition rounding_env :: env where
  "rounding_env = sample_env\<lparr>token_sort_ratio := (\<lambda>s1 s2. if s1 = s2 then 100 else 67)\<rparr>"

definition no_url_env :: env where
  "no_url_env =
     sample_env\<lparr>sitelinks_reply := (\<lambda>qid.
       Reply 200 (Some [qid \<mapsto> EntityDoc (Some [''enwiki'' \<mapsto> Sitelink None])]))\<rparr>"

section \<open>Notions used in the statements\<close>

text \<open>The first fields, trimmed, of the non-empty rows of a list of rows.\<close>

definition first_fields :: "row list \<Rightarrow> string set" where
  "first_fields rows = (\<lambda>row. strip (hd row)) ` {row \<in> set rows. row \<noteq> []}"

text \<open>
  All rows of an open file, and a later state of the same file: the same rows followed
  by rows that are not the header.
\<close>

definition rows_of :: "handle \<Rightarrow> row list" where
  "rows_of h = disk h @ pending h"

definition extends :: "handle \<Rightarrow> handle \<Rightarrow> bool" where
  "extends h h' =
     (cond h' = cond h
      \<and> (\<exists>extra. rows_of h' = rows_of h @ extra \<and> header_row \<notin> set extra))"

section \<open>The Taxonomy Enricher: retries\<close>

lemma upt3: "[0..<3] = [0, 1, 2::nat]"
  by (simp add: upt_rec)

lemma retry_loop_requests:
  "requests_to Sparql (snd (retry_loop E qid language m attempts)) \<le> length attempts"
  by (induction attempts) (auto simp: requests_to_def split: outcome.splits prod.splits)

lemma retry_loop_exhausted:
  "\<forall>attempt \<in> set attempts. \<forall>res. attempt_outcome (sparql_reply E qid language attempt) \<noteq> Parsed res
   \<Longrightarrow> fst (retry_loop E qid language m attempts) = ([], [], [], [])"
  by (induction attempts) (auto split: outcome.splits prod.splits)

text \<open>
  C3: the enricher sends at most three requests to the graph-query endpoint, and when
  none of the attempts 0, 1, 2 reaches the \<^verbatim>\<open>return\<close> of the \<^verbatim>\<open>try\<close> (each is
  rate-limited or raises), it returns four empty lists. The function is total: the
  exceptions of an attempt are the \<open>Failed\<close> outcome, which the loop absorbs.
\<close>

theorem enricher_three_attempts:
  "requests_to Sparql (snd (get_instances_and_subclasses E qid language)) \<le> 3
   \<and> ((\<forall>attempt < 3. \<forall>res. attempt_outcome (sparql_reply E qid language attempt) \<noteq> Parsed res)
        \<longrightarrow> fst (get_instances_and_subclasses E qid language) = ([], [], [], []))"
proof
  show "requests_to Sparql (snd (get_instances_and_subclasses E qid language)) \<le> 3"
    using retry_loop_requests [of E qid language 3 "[0..<3]"]
    by (simp add: get_instances_and_subclasses_def)
next
  show "(\<forall>attempt < 3. \<forall>res. attempt_outcome (sparql_reply E qid language attempt) \<noteq> Parsed res)
        \<longrightarrow> fst (get_instances_and_subclasses E qid language) = ([], [], [], [])"
    using retry_loop_exhausted [of "[0..<3]" E qid language 3]
    by (simp add: get_instances_and_subclasses_def)
qed

theorem enricher_three_attempts_witness:
  "requests_to Sparql (snd (get_instances_and_subclasses offline_env ''Q42'' ''en'')) \<le> 3
   \<and> fst (get_instances_and_subclasses offline_env ''Q42'' ''en'') = ([], [], [], [])"
  using enricher_three_attempts [of offline_env "''Q42''" "''en''"]
  by (simp add: offline_env_def attempt_outcome_def)

text \<open>
  C8: when attempts 0 and 1 are answered 429 and attempt 2 is answered with a status
  that passes \<^verbatim>\<open>raise_for_status\<close> and a body that parses, the enricher returns the
  parsed lists of that third answer; it sleeps 10 seconds after each 429 (not the
  \<open>2 ^ attempt\<close> of the \<^verbatim>\<open>except\<close> branch) and half a second before returning, so at
  least 20 seconds in all.
\<close>

theorem enricher_rate_limited_twice:
  assumes "sparql_reply E qid language 0 = Reply 429 b0"
    and "sparql_reply E qid language 1 = Reply 429 b1"
    and "sparql_reply E qid language 2 = Reply status (Some results)"
    and "status \<noteq> 429" and "\<not> is_error_status status"
  shows "get_instances_and_subclasses E qid language =
           (parse_bindings results,
            [Request Sparql qid, Log Warning qid, Sleep 10,
             Request Sparql qid, Log Warning qid, Sleep 10,
             Request Sparql qid, Sleep (1 / 2)])
         \<and> total_sleep (snd (get_instances_and_subclasses E qid language)) \<ge> 20"
  using assms
  by (simp add: get_instances_and_subclasses_def upt3 attempt_outcome_def total_sleep_def)

theorem enricher_rate_limited_twice_witness:
  "get_instances_and_subclasses throttled_env ''Q42'' ''en'' =
     (([''Q5''], [''human''], [], []),
      [Request Sparql ''Q42'', Log Warning ''Q42'', Sleep 10,
       Request Sparql ''Q42'', Log Warning ''Q42'', Sleep 10,
       Request Sparql ''Q42'', Sleep (1 / 2)])
   \<and> total_sleep (snd (get_instances_and_subclasses throttled_env ''Q42'' ''en'')) \<ge> 20"
proof -
  have p: "parse_bindings [human_binding, human_binding] = ([''Q5''], [''human''], [], [])"
    by (simp add: parse_bindings_def human_binding_def List.map_filter_def sorted_set_def
          last_segment_def)
  have r: "sparql_reply throttled_env ''Q42'' ''en'' 0 = Reply 429 None"
    "sparql_reply throttled_env ''Q42'' ''en'' 1 = Reply 429 None"
    "sparql_reply throttled_env ''Q42'' ''en'' 2 = Reply 200 (Some [human_binding, human_binding])"
    "(200::nat) \<noteq> 429" "\<not> is_error_status 200"
    by (simp_all add: throttled_env_def is_error_status_def)
  show ?thesis
    using enricher_rate_limited_twice [OF r] by (simp add: p total_sleep_def)
qed

section \<open>The driver: one keyword\<close>

lemma write_rows_eq:
  "write_rows E h rs =
     (if list_all (writable E) rs then None else Some WriteError,
      h\<lparr>pending := pending h @ takeWhile (writable E) rs\<rparr>)"
  by (induction rs arbitrary: h) auto

lemma resolve_entities_objs:
  "resolve_entities E keyword min_score (map Obj ents) m u =
     (Inr (m @ matched_records E keyword min_score ents,
           u @ unmatched_records E keyword min_score ents),
      concat (map (\<lambda>ent. snd (entity_result E keyword ent)) ents))"
proof (induction ents arbitrary: m u)
  case Nil
  then show ?case by (simp add: matched_records_def unmatched_records_def scored_def)
next
  case (Cons ent ents)
  obtain score r evs where er: "entity_result E keyword ent = ((score, r), evs)"
    by (metis prod.exhaust)
  show ?case
    using Cons [of "m @ [r]" u] Cons [of m "u @ [r]"]
    by (simp add: resolve_candidate_def er matched_records_def unmatched_records_def scored_def)
qed

lemma resolve_entities_Inr_objs:
  "fst (resolve_entities E keyword min_score cs m u) = Inr res \<Longrightarrow> \<exists>ents. cs = map Obj ents"
proof (induction cs arbitrary: m u)
  case Nil
  then show ?case by simp
next
  case (Cons c cs)
  show ?case
  proof (cases c)
    case NonObj
    with Cons.prems show ?thesis by (simp add: resolve_candidate_def)
  next
    case (Obj ent)
    obtain score r evs where er: "entity_result E keyword ent = ((score, r), evs)"
      by (metis prod.exhaust)
    from Cons.prems Obj er
    have "(\<exists>m' u'. fst (resolve_entities E keyword min_score cs m' u') = Inr res)"
      by (auto simp: resolve_candidate_def split: if_splits prod.splits) (metis fst_conv)+
    then obtain ents where "cs = map Obj ents" using Cons.IH by blast
    then have "c # cs = map Obj (ent # ents)" using Obj by simp
    then show ?thesis by (rule exI)
  qed
qed

text \<open>The sample environment, evaluated.\<close>

lemma sample_taxonomy: "get_instances_and_subclasses sample_env qid ''en'' = (([], [], [], []), [Request Sparql qid, Sleep (1 / 2)])"
  by (simp add: get_instances_and_subclasses_def upt3 attempt_outcome_def sample_env_def is_error_status_def parse_bindings_def List.map_filter_def sorted_set_def)

lemma sample_link: "get_wikipedia_link sample_env qid ''en'' = (Some [], [Request Sitelinks qid])"
  by (simp add: get_wikipedia_link_def sample_env_def is_error_status_def)

lemma sample_search_python:
  "search_wikidata_entities sample_env ''Python'' ''en'' 5 = (map Obj [python_entity, snake_entity], [Request Search ''Python''])"
  by (simp add: search_wikidata_entities_def sample_env_def is_error_status_def)

lemma sample_search_monty:
  "search_wikidata_entities sample_env ''Monty'' ''en'' 5 = (map Obj [python_entity, python_film], [Request Search ''Monty''])"
  by (simp add: search_wikidata_entities_def sample_env_def is_error_status_def)

lemma sample_search_broken:
  "search_wikidata_entities sample_env ''broken'' ''en'' 5 = ([Obj python_entity, NonObj], [Request Search ''broken''])"
  by (simp add: search_wikidata_entities_def sample_env_def is_error_status_def)

lemma sample_search_none:
  "search_wikidata_entities sample_env ''xyzzy123'' ''en'' 5 = ([], [Request Search ''xyzzy123''])"
  by (simp add: search_wikidata_entities_def sample_env_def is_error_status_def)

lemma sample_python_python:
  "entity_result sample_env ''Python'' python_entity =
     ((100, [''Python'', ''Q28865'', ''Python'', ''100.0'', [], [], [], [], []]),
      [Request Sparql ''Q28865'', Sleep (1 / 2), Request Sitelinks ''Q28865''])"
  by (simp add: entity_result_def sample_taxonomy sample_link python_entity_def best_score_def list_max_def)
     (simp add: sample_env_def Let_def)

lemma sample_python_snake:
  "entity_result sample_env ''Python'' snake_entity =
     ((200 / 3, [''Python'', ''Q2102'', ''Pythonidae'', ''66.66666666666667'', [], [], [], [], []]),
      [Request Sparql ''Q2102'', Sleep (1 / 2), Request Sitelinks ''Q2102''])"
  by (simp add: entity_result_def sample_taxonomy sample_link snake_entity_def best_score_def list_max_def)
     (simp add: sample_env_def Let_def)

lemma sample_monty_python:
  "entity_result sample_env ''Monty'' python_entity =
     ((100, [''Monty'', ''Q28865'', ''Python'', ''100.0'', [], [], [], [], []]),
      [Request Sparql ''Q28865'', Sleep (1 / 2), Request Sitelinks ''Q28865''])"
  by (simp add: entity_result_def sample_taxonomy sample_link python_entity_def best_score_def list_max_def)
     (simp add: sample_env_def Let_def)

lemma sample_monty_film:
  "entity_result sample_env ''Monty'' python_film =
     ((100, [''Monty'', ''Q15721'', ''Python'', ''100.0'', [], [], [], [], []]),
      [Request Sparql ''Q15721'', Sleep (1 / 2), Request Sitelinks ''Q15721''])"
  by (simp add: entity_result_def sample_taxonomy sample_link python_film_def best_score_def list_max_def)
     (simp add: sample_env_def Let_def)

lemmas sample_simps = sample_search_python sample_search_monty sample_search_broken sample_search_none
  sample_python_python sample_python_snake sample_monty_python sample_monty_film

text \<open>
  C1: for a keyword whose candidates all resolve and whose records \<^verbatim>\<open>writerow\<close>
  accepts (a keyword that is processed and counted), the accumulators are the records
  with score at least \<open>min_score\<close> and the others. When the matched ones are not empty,
  exactly they are appended to the matched partition, which is flushed, and the
  unmatched partition is untouched; when they are empty and the unmatched ones are not,
  exactly those are appended to the unmatched partition and flushed; when both are
  empty nothing is written. So a keyword with both kinds persists only its matched
  records.
\<close>

theorem write_policy:
  assumes "fst (search_wikidata_entities E keyword ''en'' wikidata_limit) = map Obj ents"
    and "\<forall>r \<in> set (scored E keyword ents). writable E (snd r)"
  shows
    "(matched_records E keyword min_score ents \<noteq> [] \<longrightarrow>
        matchedfile (process_keyword E wikidata_limit min_score keyword s) =
          (matchedfile s)\<lparr>disk := disk (matchedfile s) @ pending (matchedfile s)
                                   @ matched_records E keyword min_score ents,
                          pending := []\<rparr>
        \<and> unmatchedfile (process_keyword E wikidata_limit min_score keyword s) = unmatchedfile s)
     \<and> (matched_records E keyword min_score ents = [] \<and>
        unmatched_records E keyword min_score ents \<noteq> [] \<longrightarrow>
        unmatchedfile (process_keyword E wikidata_limit min_score keyword s) =
          (unmatchedfile s)\<lparr>disk := disk (unmatchedfile s) @ pending (unmatchedfile s)
                                     @ unmatched_records E keyword min_score ents,
                            pending := []\<rparr>
        \<and> matchedfile (process_keyword E wikidata_limit min_score keyword s) = matchedfile s)
     \<and> (matched_records E keyword min_score ents = [] \<and>
        unmatched_records E keyword min_score ents = [] \<longrightarrow>
        matchedfile (process_keyword E wikidata_limit min_score keyword s) = matchedfile s
        \<and> unmatchedfile (process_keyword E wikidata_limit min_score keyword s) = unmatchedfile s)
     \<and> processed_count (process_keyword E wikidata_limit min_score keyword s) = processed_count s + 1"
proof -
  obtain ev1 where se: "search_wikidata_entities E keyword ''en'' wikidata_limit = (map Obj ents, ev1)"
    using assms(1) by (metis fst_conv prod.exhaust)
  have wm: "list_all (writable E) (matched_records E keyword min_score ents)"
    using assms(2) by (auto simp: matched_records_def list_all_iff)
  have wu: "list_all (writable E) (unmatched_records E keyword min_score ents)"
    using assms(2) by (auto simp: unmatched_records_def list_all_iff)
  have tm: "takeWhile (writable E) (matched_records E keyword min_score ents) = matched_records E keyword min_score ents"
    using wm by (simp add: list_all_iff)
  have tu: "takeWhile (writable E) (unmatched_records E keyword min_score ents) = unmatched_records E keyword min_score ents"
    using wu by (simp add: list_all_iff)
  show ?thesis
    by (simp add: process_keyword_def Let_def se resolve_entities_objs write_rows_eq wm wu tm tu flush_def)
qed

theorem write_policy_witness:
  "matchedfile (process_keyword sample_env 5 80 ''Python'' fresh) =
     \<lparr>cond = sound,
      disk = [header_row, [''Python'', ''Q28865'', ''Python'', ''100.0'', [], [], [], [], []]],
      pending = []\<rparr>
   \<and> unmatchedfile (process_keyword sample_env 5 80 ''Python'' fresh) = unmatchedfile fresh
   \<and> unmatched_records sample_env ''Python'' 80 [python_entity, snake_entity] \<noteq> []"
  using write_policy [of sample_env "''Python''" 5 "[python_entity, snake_entity]" 80 fresh]
  by (simp add: sample_simps scored_def matched_records_def unmatched_records_def
        fresh_def open_partition_def should_write_header_def open_append_def flush_def)
     (simp add: sample_env_def Let_def)


lemma sample_broken_python:
  "entity_result sample_env ''broken'' python_entity =
     ((200 / 3, [''broken'', ''Q28865'', ''Python'', ''66.66666666666667'', [], [], [], [], []]),
      [Request Sparql ''Q28865'', Sleep (1 / 2), Request Sitelinks ''Q28865''])"
  by (simp add: entity_result_def sample_taxonomy sample_link python_entity_def best_score_def list_max_def)
     (simp add: sample_env_def Let_def)

lemma fresh_eq:
  "fresh = \<lparr>matchedfile = \<lparr>cond = sound, disk = [header_row], pending = []\<rparr>,
            unmatchedfile = \<lparr>cond = sound, disk = [header_row], pending = []\<rparr>,
            processed_count = 0, skipped_count = 0, trace = []\<rparr>"
  by (simp add: fresh_def open_partition_def should_write_header_def open_append_def flush_def)

lemma sample_writable: "writable sample_env r = (''Q15721'' \<notin> set r)"
  by (simp add: sample_env_def)

lemma strip_Monty: "strip ''Monty'' = ''Monty''"
  by (simp add: strip_def isspace_def)

lemma strip_spaces: "strip ''  '' = []"
  by (simp add: strip_def isspace_def)

lemma strip_xyzzy: "strip ''xyzzy123'' = ''xyzzy123''"
  by (simp add: strip_def isspace_def)

lemma strip_Python_nl: "strip '' Python '' = ''Python''"
  by (simp add: strip_def isspace_def)

lemma bootstrap_Absent:
  "get_processed_keywords Absent Absent = ({}, [])"
  by (simp add: get_processed_keywords_def get_file_keywords_def)

lemma process_keyword_Monty:
  "process_keyword sample_env 5 80 ''Monty'' s =
     s\<lparr>matchedfile := (matchedfile s)\<lparr>pending := pending (matchedfile s)
            @ [[''Monty'', ''Q28865'', ''Python'', ''100.0'', [], [], [], [], []]]\<rparr>,
       trace := trace s @ [Request Search ''Monty'', Request Sparql ''Q28865'', Sleep (1 / 2),
                     Request Sitelinks ''Q28865'', Request Sparql ''Q15721'', Sleep (1 / 2),
                     Request Sitelinks ''Q15721'', Log Error ''Monty'']\<rparr>"
  by (simp add: process_keyword_def sample_search_monty resolve_candidate_def
        sample_monty_python sample_monty_film sample_writable)

lemma process_rows_Cons:
  "process_rows E wl ms P (row # rows) s = process_rows E wl ms P rows (process_row E wl ms P row s)"
  by (simp add: process_rows_def)

text \<open>
  C2, as the code has it: an exception that leaves the candidate loop (a candidate that
  is not an object) is caught and logged, the state of the run is otherwise as before
  the keyword (nothing handed to either writer, both counters unchanged), and the loop
  goes on with the next row. An exception raised by \<^verbatim>\<open>writerow\<close> is caught and logged
  too and the counters stay, but the records of this keyword handed to the writer
  before the refused one stay in the partition's buffer; the later partition file holds
  them.
\<close>

theorem keyword_failure_contained:
  "(fst (resolve_entities E keyword min_score
           (fst (search_wikidata_entities E keyword ''en'' wikidata_limit)) [] []) = Inl e \<longrightarrow>
      process_keyword E wikidata_limit min_score keyword s =
        s\<lparr>trace := trace s @ snd (search_wikidata_entities E keyword ''en'' wikidata_limit)
                   @ snd (resolve_entities E keyword min_score
                            (fst (search_wikidata_entities E keyword ''en'' wikidata_limit)) [] [])
                   @ [Log Error keyword]\<rparr>)
   \<and> (fst (search_wikidata_entities E keyword ''en'' wikidata_limit) = map Obj ents
      \<and> matched_records E keyword min_score ents \<noteq> []
      \<and> \<not> list_all (writable E) (matched_records E keyword min_score ents) \<longrightarrow>
      process_keyword E wikidata_limit min_score keyword s =
        s\<lparr>matchedfile := (matchedfile s)
             \<lparr>pending := pending (matchedfile s)
                          @ takeWhile (writable E) (matched_records E keyword min_score ents)\<rparr>,
          trace := trace s @ snd (search_wikidata_entities E keyword ''en'' wikidata_limit)
                   @ concat (map (\<lambda>ent. snd (entity_result E keyword ent)) ents)
                   @ [Log Error keyword]\<rparr>)
   \<and> (fst (search_wikidata_entities E keyword ''en'' wikidata_limit) = map Obj ents
      \<and> matched_records E keyword min_score ents = []
      \<and> \<not> list_all (writable E) (unmatched_records E keyword min_score ents) \<longrightarrow>
      process_keyword E wikidata_limit min_score keyword s =
        s\<lparr>unmatchedfile := (unmatchedfile s)
             \<lparr>pending := pending (unmatchedfile s)
                          @ takeWhile (writable E) (unmatched_records E keyword min_score ents)\<rparr>,
          trace := trace s @ snd (search_wikidata_entities E keyword ''en'' wikidata_limit)
                   @ concat (map (\<lambda>ent. snd (entity_result E keyword ent)) ents)
                   @ [Log Error keyword]\<rparr>)
   \<and> process_rows E wikidata_limit min_score processed_keywords (row # rows) s =
       process_rows E wikidata_limit min_score processed_keywords rows
         (process_row E wikidata_limit min_score processed_keywords row s)"
proof (intro conjI impI)
  assume a: "fst (resolve_entities E keyword min_score
           (fst (search_wikidata_entities E keyword ''en'' wikidata_limit)) [] []) = Inl e"
  then show "process_keyword E wikidata_limit min_score keyword s =
        s\<lparr>trace := trace s @ snd (search_wikidata_entities E keyword ''en'' wikidata_limit)
                   @ snd (resolve_entities E keyword min_score
                            (fst (search_wikidata_entities E keyword ''en'' wikidata_limit)) [] [])
                   @ [Log Error keyword]\<rparr>"
    by (simp add: process_keyword_def Let_def split_beta)
next
  assume a: "fst (search_wikidata_entities E keyword ''en'' wikidata_limit) = map Obj ents
      \<and> matched_records E keyword min_score ents \<noteq> []
      \<and> \<not> list_all (writable E) (matched_records E keyword min_score ents)"
  then show "process_keyword E wikidata_limit min_score keyword s =
        s\<lparr>matchedfile := (matchedfile s)
             \<lparr>pending := pending (matchedfile s)
                          @ takeWhile (writable E) (matched_records E keyword min_score ents)\<rparr>,
          trace := trace s @ snd (search_wikidata_entities E keyword ''en'' wikidata_limit)
                   @ concat (map (\<lambda>ent. snd (entity_result E keyword ent)) ents)
                   @ [Log Error keyword]\<rparr>"
    by (simp add: process_keyword_def Let_def resolve_entities_objs write_rows_eq split_beta)
next
  assume a: "fst (search_wikidata_entities E keyword ''en'' wikidata_limit) = map Obj ents
      \<and> matched_records E keyword min_score ents = []
      \<and> \<not> list_all (writable E) (unmatched_records E keyword min_score ents)"
  then have "unmatched_records E keyword min_score ents \<noteq> []" by auto
  with a show "process_keyword E wikidata_limit min_score keyword s =
        s\<lparr>unmatchedfile := (unmatchedfile s)
             \<lparr>pending := pending (unmatchedfile s)
                          @ takeWhile (writable E) (unmatched_records E keyword min_score ents)\<rparr>,
          trace := trace s @ snd (search_wikidata_entities E keyword ''en'' wikidata_limit)
                   @ concat (map (\<lambda>ent. snd (entity_result E keyword ent)) ents)
                   @ [Log Error keyword]\<rparr>"
    by (simp add: process_keyword_def Let_def resolve_entities_objs write_rows_eq split_beta)
next
  show "process_rows E wikidata_limit min_score processed_keywords (row # rows) s =
       process_rows E wikidata_limit min_score processed_keywords rows
         (process_row E wikidata_limit min_score processed_keywords row s)"
    by (rule process_rows_Cons)
qed

theorem keyword_failure_contained_witness:
  "process_keyword sample_env 5 80 ''broken'' fresh =
     fresh\<lparr>trace := [Request Search ''broken'', Request Sparql ''Q28865'', Sleep (1 / 2),
                      Request Sitelinks ''Q28865'', Log Error ''broken'']\<rparr>
   \<and> process_keyword sample_env 5 80 ''Monty'' fresh =
     fresh\<lparr>matchedfile := \<lparr>cond = sound, disk = [header_row],
                             pending = [[''Monty'', ''Q28865'', ''Python'', ''100.0'', [], [], [], [], []]]\<rparr>,
           trace := [Request Search ''Monty'', Request Sparql ''Q28865'', Sleep (1 / 2),
                     Request Sitelinks ''Q28865'', Request Sparql ''Q15721'', Sleep (1 / 2),
                     Request Sitelinks ''Q15721'', Log Error ''Monty'']\<rparr>"
proof
  show "process_keyword sample_env 5 80 ''broken'' fresh =
     fresh\<lparr>trace := [Request Search ''broken'', Request Sparql ''Q28865'', Sleep (1 / 2),
                      Request Sitelinks ''Q28865'', Log Error ''broken'']\<rparr>"
    using keyword_failure_contained [of sample_env "''broken''" 80 5 AttributeError fresh]
    by (simp add: sample_search_broken resolve_candidate_def sample_broken_python fresh_eq)
next
  show "process_keyword sample_env 5 80 ''Monty'' fresh =
     fresh\<lparr>matchedfile := \<lparr>cond = sound, disk = [header_row],
                             pending = [[''Monty'', ''Q28865'', ''Python'', ''100.0'', [], [], [], [], []]]\<rparr>,
           trace := [Request Search ''Monty'', Request Sparql ''Q28865'', Sleep (1 / 2),
                     Request Sitelinks ''Q28865'', Request Sparql ''Q15721'', Sleep (1 / 2),
                     Request Sitelinks ''Q15721'', Log Error ''Monty'']\<rparr>"
    using keyword_failure_contained [of sample_env "''Monty''" 80 5 _ fresh "[python_entity, python_film]"]
    by (simp add: sample_search_monty sample_monty_python sample_monty_film fresh_eq
          matched_records_def scored_def sample_writable)
qed

text \<open>
  C2 as stated fails: here the second matched record of \<^verbatim>\<open>Monty\<close> is refused by
  \<^verbatim>\<open>writerow\<close>; the exception is logged and the keyword is not counted, yet the first
  record is in the matched partition after the run, and the next bootstrap finds the
  keyword among the processed ones.
\<close>

theorem write_failure_counterexample:
  "matched_csv (process_keywords sample_env [[''Monty'']] Absent Absent 5 80) =
     Present sound [header_row, [''Monty'', ''Q28865'', ''Python'', ''100.0'', [], [], [], [], []]]
   \<and> processed (process_keywords sample_env [[''Monty'']] Absent Absent 5 80) = 0
   \<and> Log Error ''Monty'' \<in> set (events (process_keywords sample_env [[''Monty'']] Absent Absent 5 80))
   \<and> ''Monty'' \<in> fst (get_processed_keywords
                          (matched_csv (process_keywords sample_env [[''Monty'']] Absent Absent 5 80))
                          (unmatched_csv (process_keywords sample_env [[''Monty'']] Absent Absent 5 80)))"
proof -
  have run: "process_keywords sample_env [[''Monty'']] Absent Absent 5 80 =
     \<lparr>matched_csv = Present sound [header_row, [''Monty'', ''Q28865'', ''Python'', ''100.0'', [], [], [], [], []]],
      unmatched_csv = Present sound [header_row],
      processed = 0, skipped = 0,
      events = [Log Info ''start'', Request Search ''Monty'', Request Sparql ''Q28865'', Sleep (1 / 2),
                     Request Sitelinks ''Q28865'', Request Sparql ''Q15721'', Sleep (1 / 2),
                     Request Sitelinks ''Q15721'', Log Error ''Monty'', Log Info ''complete'']\<rparr>"
    by (simp add: process_keywords_def bootstrap_Absent process_rows_def process_row_def strip_Monty
          process_keyword_Monty open_partition_def should_write_header_def open_append_def
          flush_def close_def)
  show ?thesis
    by (auto simp: run get_processed_keywords_def get_file_keywords_def strip_Monty)
qed

lemma run_state_append:
  "run_state E (before @ after) matched unmatched wl ms =
     process_rows E wl ms (fst (get_processed_keywords matched unmatched)) after
       (run_state E before matched unmatched wl ms)"
  by (simp add: run_state_def process_rows_def)

lemma process_keywords_run_state:
  "process_keywords E input_csv matched unmatched wl ms =
     \<lparr>matched_csv = close (matchedfile (run_state E input_csv matched unmatched wl ms)),
      unmatched_csv = close (unmatchedfile (run_state E input_csv matched unmatched wl ms)),
      processed = processed_count (run_state E input_csv matched unmatched wl ms),
      skipped = skipped_count (run_state E input_csv matched unmatched wl ms),
      events = trace (run_state E input_csv matched unmatched wl ms) @ [Log Info ''complete'']\<rparr>"
  by (simp add: process_keywords_def run_state_def Let_def split_beta)

lemma strip_Python: "strip ''Python'' = ''Python''"
  by (simp add: strip_def isspace_def)

lemma earlier_keywords:
  "fst (get_processed_keywords
         (Present sound [header_row, [''Python'', ''Q28865'', ''Python'', ''100.0'', [], [], [], [], []]])
         Absent) = {''Python''}"
  by (simp add: get_processed_keywords_def get_file_keywords_def strip_Python)

lemma process_keyword_Python:
  "process_keyword sample_env 5 80 ''Python'' s =
     s\<lparr>matchedfile := flush ((matchedfile s)\<lparr>pending := pending (matchedfile s)
            @ [[''Python'', ''Q28865'', ''Python'', ''100.0'', [], [], [], [], []]]\<rparr>),
       processed_count := processed_count s + 1,
       trace := trace s @ [Request Search ''Python'', Request Sparql ''Q28865'', Sleep (1 / 2),
                     Request Sitelinks ''Q28865'', Request Sparql ''Q2102'', Sleep (1 / 2),
                     Request Sitelinks ''Q2102'', Log Info ''Python'']\<rparr>"
  by (simp add: process_keyword_def sample_search_python resolve_candidate_def
        sample_python_python sample_python_snake sample_writable)

text \<open>
  C4, as the code has it: the Processed-Keyword Set a run skips by is the one built at
  bootstrap from the two partition files as they were before the run; the run never adds
  to it. At any point of the run, an empty row and a row whose first field is empty
  after trimming leave the whole state as it is, the skipped-count included; a row whose
  trimmed keyword is in that set changes nothing but the skipped-count, which grows by
  one: no request, no sleep, no log line, nothing handed to a writer. Every other row is
  processed, also when records of its keyword were written earlier in the same run.
\<close>

theorem skipped_rows:
  "process_keywords E input_csv matched unmatched wikidata_limit min_score =
     \<lparr>matched_csv = close (matchedfile (run_state E input_csv matched unmatched wikidata_limit min_score)),
      unmatched_csv = close (unmatchedfile (run_state E input_csv matched unmatched wikidata_limit min_score)),
      processed = processed_count (run_state E input_csv matched unmatched wikidata_limit min_score),
      skipped = skipped_count (run_state E input_csv matched unmatched wikidata_limit min_score),
      events = trace (run_state E input_csv matched unmatched wikidata_limit min_score)
               @ [Log Info ''complete'']\<rparr>
   \<and> (row = [] \<or> strip (hd row) = [] \<longrightarrow>
        run_state E (before @ [row]) matched unmatched wikidata_limit min_score =
          run_state E before matched unmatched wikidata_limit min_score)
   \<and> (row \<noteq> [] \<and> strip (hd row) \<noteq> []
      \<and> strip (hd row) \<in> fst (get_processed_keywords matched unmatched) \<longrightarrow>
        run_state E (before @ [row]) matched unmatched wikidata_limit min_score =
          (run_state E before matched unmatched wikidata_limit min_score)
            \<lparr>skipped_count :=
               skipped_count (run_state E before matched unmatched wikidata_limit min_score) + 1\<rparr>)
   \<and> (row \<noteq> [] \<and> strip (hd row) \<noteq> []
      \<and> strip (hd row) \<notin> fst (get_processed_keywords matched unmatched) \<longrightarrow>
        run_state E (before @ [row]) matched unmatched wikidata_limit min_score =
          process_keyword E wikidata_limit min_score (strip (hd row))
            (run_state E before matched unmatched wikidata_limit min_score))"
proof (intro conjI impI)
  show "process_keywords E input_csv matched unmatched wikidata_limit min_score =
     \<lparr>matched_csv = close (matchedfile (run_state E input_csv matched unmatched wikidata_limit min_score)),
      unmatched_csv = close (unmatchedfile (run_state E input_csv matched unmatched wikidata_limit min_score)),
      processed = processed_count (run_state E input_csv matched unmatched wikidata_limit min_score),
      skipped = skipped_count (run_state E input_csv matched unmatched wikidata_limit min_score),
      events = trace (run_state E input_csv matched unmatched wikidata_limit min_score)
               @ [Log Info ''complete'']\<rparr>"
    by (rule process_keywords_run_state)
next
  assume "row = [] \<or> strip (hd row) = []"
  then show "run_state E (before @ [row]) matched unmatched wikidata_limit min_score =
          run_state E before matched unmatched wikidata_limit min_score"
    by (auto simp: run_state_append process_rows_def process_row_def)
next
  assume "row \<noteq> [] \<and> strip (hd row) \<noteq> []
      \<and> strip (hd row) \<in> fst (get_processed_keywords matched unmatched)"
  then show "run_state E (before @ [row]) matched unmatched wikidata_limit min_score =
          (run_state E before matched unmatched wikidata_limit min_score)
            \<lparr>skipped_count :=
               skipped_count (run_state E before matched unmatched wikidata_limit min_score) + 1\<rparr>"
    by (simp add: run_state_append process_rows_def process_row_def)
next
  assume "row \<noteq> [] \<and> strip (hd row) \<noteq> []
      \<and> strip (hd row) \<notin> fst (get_processed_keywords matched unmatched)"
  then show "run_state E (before @ [row]) matched unmatched wikidata_limit min_score =
          process_keyword E wikidata_limit min_score (strip (hd row))
            (run_state E before matched unmatched wikidata_limit min_score)"
    by (simp add: run_state_append process_rows_def process_row_def)
qed

theorem skipped_rows_witness:
  "run_state sample_env [[''  '']]
     (Present sound [header_row, [''Python'', ''Q28865'', ''Python'', ''100.0'', [], [], [], [], []]])
     Absent 5 80
   = run_state sample_env []
       (Present sound [header_row, [''Python'', ''Q28865'', ''Python'', ''100.0'', [], [], [], [], []]])
       Absent 5 80
   \<and> run_state sample_env [['' Python '']]
       (Present sound [header_row, [''Python'', ''Q28865'', ''Python'', ''100.0'', [], [], [], [], []]])
       Absent 5 80
     = (run_state sample_env []
         (Present sound [header_row, [''Python'', ''Q28865'', ''Python'', ''100.0'', [], [], [], [], []]])
         Absent 5 80)\<lparr>skipped_count := 1\<rparr>
   \<and> run_state sample_env [[''xyzzy123'']]
       (Present sound [header_row, [''Python'', ''Q28865'', ''Python'', ''100.0'', [], [], [], [], []]])
       Absent 5 80
     = process_keyword sample_env 5 80 ''xyzzy123''
         (run_state sample_env []
           (Present sound [header_row, [''Python'', ''Q28865'', ''Python'', ''100.0'', [], [], [], [], []]])
           Absent 5 80)"
proof -
  let ?m = "Present sound [header_row, [''Python'', ''Q28865'', ''Python'', ''100.0'', [], [], [], [], []]]"
  have z: "skipped_count (run_state sample_env [] ?m Absent 5 80) = 0"
    by (simp add: run_state_def process_rows_def)
  show ?thesis
    using skipped_rows [of sample_env "[]" ?m Absent 5 80 "[''  '']" "[]"]
      skipped_rows [of sample_env "[]" ?m Absent 5 80 "['' Python '']" "[]"]
      skipped_rows [of sample_env "[]" ?m Absent 5 80 "[''xyzzy123'']" "[]"]
    by (simp add: strip_spaces strip_Python_nl strip_xyzzy earlier_keywords z)
qed

text \<open>
  C4 as stated fails: a run over one whitespace-only row ends with skipped-count 0.
\<close>

theorem blank_row_counterexample:
  "skipped (process_keywords sample_env [[''  '']] Absent Absent 5 80) = 0
   \<and> processed (process_keywords sample_env [[''  '']] Absent Absent 5 80) = 0"
  by (simp add: process_keywords_def bootstrap_Absent process_rows_def process_row_def strip_spaces)

text \<open>
  A keyword that comes twice in the input of one run is not skipped the second time: it
  is processed twice and its record is written twice.
\<close>

lemma repeated_input_keyword:
  "processed (process_keywords sample_env [[''Python''], [''Python'']] Absent Absent 5 80) = 2
   \<and> skipped (process_keywords sample_env [[''Python''], [''Python'']] Absent Absent 5 80) = 0
   \<and> matched_csv (process_keywords sample_env [[''Python''], [''Python'']] Absent Absent 5 80) =
       Present sound [header_row,
                      [''Python'', ''Q28865'', ''Python'', ''100.0'', [], [], [], [], []],
                      [''Python'', ''Q28865'', ''Python'', ''100.0'', [], [], [], [], []]]"
  by (simp add: process_keywords_def bootstrap_Absent process_rows_def process_row_def strip_Python
        process_keyword_Python open_partition_def should_write_header_def open_append_def
        flush_def close_def Let_def)


text \<open>
  C6: for a row to process whose search returns no candidate, nothing is handed to
  either writer, the processed-count grows by one, the skipped-count stays, and the
  processed keywords read back from the two files are the same as before.
\<close>

theorem no_candidates:
  assumes "row \<noteq> []" and "strip (hd row) = keyword" and "keyword \<noteq> []"
    and "keyword \<notin> processed_keywords"
    and "fst (search_wikidata_entities E keyword ''en'' wikidata_limit) = []"
  shows "process_row E wikidata_limit min_score processed_keywords row s =
           s\<lparr>processed_count := processed_count s + 1,
             trace := trace s @ snd (search_wikidata_entities E keyword ''en'' wikidata_limit)
                      @ [Log Info keyword]\<rparr>
         \<and> get_processed_keywords
               (close (matchedfile (process_row E wikidata_limit min_score processed_keywords row s)))
               (close (unmatchedfile (process_row E wikidata_limit min_score processed_keywords row s)))
             = get_processed_keywords (close (matchedfile s)) (close (unmatchedfile s))"
  using assms by (simp add: process_row_def process_keyword_def Let_def split_beta)


theorem no_candidates_witness:
  "process_row sample_env 5 80 {} [''xyzzy123''] fresh =
     fresh\<lparr>processed_count := processed_count fresh + 1,
           trace := trace fresh @ [Request Search ''xyzzy123'', Log Info ''xyzzy123'']\<rparr>
   \<and> get_processed_keywords
         (close (matchedfile (process_row sample_env 5 80 {} [''xyzzy123''] fresh)))
         (close (unmatchedfile (process_row sample_env 5 80 {} [''xyzzy123''] fresh)))
       = get_processed_keywords (close (matchedfile fresh)) (close (unmatchedfile fresh))"
  using no_candidates [of "[''xyzzy123'']" "''xyzzy123''" "{}" sample_env 5 80 fresh]
  by (simp add: strip_xyzzy sample_search_none)


section \<open>The Fuzzy Scorer\<close>

lemma list_max_Max: "list_max x xs = Max (set (x # xs))"
  unfolding list_max_def by (rule Max.set_eq_fold [symmetric])

lemma sample_range: "\<forall>s1 s2. 0 \<le> token_sort_ratio sample_env s1 s2 \<and> token_sort_ratio sample_env s1 s2 \<le> 100"
  by (simp add: sample_env_def)

text \<open>
  C5, as the code has it: for a similarity function with values in [0,100], the Match
  Score is a number in [0,100]; when the label is not empty or there is an alias it is
  the maximum of the similarity of the keyword against the label (when the label is not
  empty) and against each alias; when the label is empty and there is no alias it is 0.
  The code does not round: the score is an integer when the similarity function only
  returns integers.
\<close>

theorem best_score_is_max:
  assumes "\<forall>s1 s2. 0 \<le> token_sort_ratio E s1 s2 \<and> token_sort_ratio E s1 s2 \<le> 100"
  shows "0 \<le> best_score E keyword label aliases
       \<and> best_score E keyword label aliases \<le> 100
       \<and> (label \<noteq> [] \<or> aliases \<noteq> [] \<longrightarrow>
            best_score E keyword label aliases =
              Max ((if label \<noteq> [] then {token_sort_ratio E keyword label} else {})
                   \<union> token_sort_ratio E keyword ` set aliases))
       \<and> (label = [] \<and> aliases = [] \<longrightarrow> best_score E keyword label aliases = 0)
       \<and> ((\<forall>s1 s2. token_sort_ratio E s1 s2 \<in> \<int>) \<longrightarrow> best_score E keyword label aliases \<in> \<int>)"
proof -
  let ?S = "token_sort_ratio E keyword ` set aliases"
  let ?l = "token_sort_ratio E keyword label"
  have fin: "finite ?S" by simp
  show ?thesis
  proof (cases "label \<noteq> []")
    case True
    then have b: "best_score E keyword label aliases = Max (insert ?l ?S)"
      by (simp add: best_score_def list_max_Max)
    have "Max (insert ?l ?S) \<in> insert ?l ?S" by (rule Max_in) simp_all
    then obtain s2 where "Max (insert ?l ?S) = token_sort_ratio E keyword s2" by auto
    with assms b True show ?thesis by auto
  next
    case False
    note lab = this
    show ?thesis
    proof (cases "aliases = []")
      case True
      with lab show ?thesis by (simp add: best_score_def)
    next
      case False
      then have ne: "?S \<noteq> {}" by simp
      from lab False have b: "best_score E keyword label aliases = Max (insert 0 ?S)"
        by (simp add: best_score_def list_max_Max)
      have m: "Max ?S \<in> ?S" using fin ne by (rule Max_in)
      then obtain s2 where s2: "Max ?S = token_sort_ratio E keyword s2" by auto
      then have "0 \<le> Max ?S" using assms by simp
      then have "Max (insert 0 ?S) = Max ?S" using fin ne by (simp add: max_def)
      with b s2 assms lab False show ?thesis by auto
    qed
  qed
qed

theorem best_score_is_max_witness:
  "0 \<le> best_score sample_env ''Python'' ''Python'' [''Python (programming language)'']
   \<and> best_score sample_env ''Python'' ''Python'' [''Python (programming language)''] \<le> 100
   \<and> best_score sample_env ''Python'' ''Python'' [''Python (programming language)''] = 100
   \<and> best_score sample_env ''Python'' [] [] = 0
   \<and> best_score rounding_env ''Python'' [] [''Pythonidae''] \<in> \<int>"
proof -
  have r: "\<forall>s1 s2. 0 \<le> token_sort_ratio rounding_env s1 s2 \<and> token_sort_ratio rounding_env s1 s2 \<le> 100"
    by (simp add: rounding_env_def)
  have i: "\<forall>s1 s2. token_sort_ratio rounding_env s1 s2 \<in> \<int>"
    by (simp add: rounding_env_def)
  have t: "token_sort_ratio sample_env ''Python'' ''Python'' = 100"
    "token_sort_ratio sample_env ''Python'' ''Python (programming language)'' = 200 / 3"
    by (simp_all add: sample_env_def)
  show ?thesis
    using best_score_is_max [OF sample_range, of "''Python''" "''Python''" "[''Python (programming language)'']"]
      best_score_is_max [OF sample_range, of "''Python''" "[]" "[]"]
      best_score_is_max [OF r, of "''Python''" "[]" "[''Pythonidae'']"] i t
    by simp
qed

text \<open>
  C5 as stated fails on the integer: \<^verbatim>\<open>rapidfuzz\<close> returns a float, 66.67 for
  \<^verbatim>\<open>"ab"\<close> against \<^verbatim>\<open>"a"\<close>, and that is the score.
\<close>

theorem fractional_score_counterexample:
  "best_score sample_env ''ab'' ''a'' [] = 200 / 3 \<and> best_score sample_env ''ab'' ''a'' [] \<notin> \<int>"
proof -
  have b: "best_score sample_env ''ab'' ''a'' [] = 200 / 3"
    by (simp add: best_score_def list_max_def sample_env_def)
  have nz: "(200 / 3 :: real) \<notin> \<int>"
  proof
    assume "(200 / 3 :: real) \<in> \<int>"
    then obtain n :: int where "(200 / 3 :: real) = of_int n" by (auto elim: Ints_cases)
    then have "(200 :: real) = of_int (3 * n)" by simp
    then have "(200 :: int) = 3 * n" by linarith
    then show False by presburger
  qed
  show ?thesis
  proof
    show "best_score sample_env ''ab'' ''a'' [] = 200 / 3" by (rule b)
    show "best_score sample_env ''ab'' ''a'' [] \<notin> \<int>" unfolding b by (rule nz)
  qed
qed

section \<open>The Link Resolver\<close>

text \<open>The one way to a result that is not a string.\<close>

lemma get_wikipedia_link_None:
  "fst (get_wikipedia_link E qid language) = None \<longleftrightarrow>
     (\<exists>status entities doc links.
        sitelinks_reply E qid = Reply status (Some entities) \<and> \<not> is_error_status status
        \<and> entities qid = Some doc \<and> sitelinks doc = Some links
        \<and> links (language @ ''wiki'') = Some (Sitelink None))"
  by (auto simp: get_wikipedia_link_def Let_def split: reply.splits option.splits)
     (metis sitelink.collapse)

text \<open>
  C9: the resolver is to return a string in every case. For an answer whose
  \<^verbatim>\<open>enwiki\<close> sitelink has no \<^verbatim>\<open>url\<close> key the code returns \<^verbatim>\<open>None\<close>, not the
  empty string of its two other \<^verbatim>\<open>return ""\<close> branches.
\<close>

theorem link_without_url:
  "get_wikipedia_link no_url_env ''Q42'' ''en'' = (None, [Request Sitelinks ''Q42''])"
  by (simp add: get_wikipedia_link_def no_url_env_def is_error_status_def)

section \<open>Bootstrap\<close>

lemma get_file_keywords_read:
  "fst (get_file_keywords f) = first_fields (drop 1 (rows_read f))"
  by (cases f) (auto simp: get_file_keywords_def first_fields_def)

lemma rows_read_after_first:
  "drop 1 (rows_read (Present c (first # rest))) =
     (case reader_fails_after c of None \<Rightarrow> rest | Some n \<Rightarrow> take (n - 1) rest)"
  by (cases "reader_fails_after c") (auto simp: take_Cons' drop_Cons' split: nat.splits)

text \<open>
  C10, as the code has it: the first row of an existing partition file never contributes
  to the processed keywords, header or not: they are the trimmed first fields of the
  non-empty rows that the reader yields after the first, of both files (all the rows
  after the first, or those before the reader raises). So the keyword of a record in the
  first line is absent from the set, and a row of the input with that keyword is
  processed again, when no such later row of either file carries it.
\<close>

theorem first_row_excluded:
  "fst (get_processed_keywords (Present c (first # rest)) other)
     = first_fields (case reader_fails_after c of None \<Rightarrow> rest | Some n \<Rightarrow> take (n - 1) rest)
       \<union> first_fields (drop 1 (rows_read other))
   \<and> fst (get_processed_keywords other (Present c (first # rest)))
     = first_fields (drop 1 (rows_read other))
       \<union> first_fields (case reader_fails_after c of None \<Rightarrow> rest | Some n \<Rightarrow> take (n - 1) rest)
   \<and> (strip (hd first) \<noteq> []
      \<and> strip (hd first)
          \<notin> first_fields (case reader_fails_after c of None \<Rightarrow> rest | Some n \<Rightarrow> take (n - 1) rest)
      \<and> strip (hd first) \<notin> first_fields (drop 1 (rows_read other))
      \<and> input_row \<noteq> [] \<and> strip (hd input_row) = strip (hd first) \<longrightarrow>
        strip (hd first) \<notin> fst (get_processed_keywords (Present c (first # rest)) other)
        \<and> strip (hd first) \<notin> fst (get_processed_keywords other (Present c (first # rest)))
        \<and> process_row E wikidata_limit min_score
            (fst (get_processed_keywords (Present c (first # rest)) other)) input_row s
          = process_keyword E wikidata_limit min_score (strip (hd first)) s
        \<and> process_row E wikidata_limit min_score
            (fst (get_processed_keywords other (Present c (first # rest)))) input_row s
          = process_keyword E wikidata_limit min_score (strip (hd first)) s)"
proof -
  have a: "fst (get_processed_keywords (Present c (first # rest)) other)
     = first_fields (case reader_fails_after c of None \<Rightarrow> rest | Some n \<Rightarrow> take (n - 1) rest)
       \<union> first_fields (drop 1 (rows_read other))"
    using get_file_keywords_read [of "Present c (first # rest)"] get_file_keywords_read [of other]
      rows_read_after_first [of c first rest]
    by (simp add: get_processed_keywords_def split_beta)
  have b: "fst (get_processed_keywords other (Present c (first # rest)))
     = first_fields (drop 1 (rows_read other))
       \<union> first_fields (case reader_fails_after c of None \<Rightarrow> rest | Some n \<Rightarrow> take (n - 1) rest)"
    using get_file_keywords_read [of "Present c (first # rest)"] get_file_keywords_read [of other]
      rows_read_after_first [of c first rest]
    by (simp add: get_processed_keywords_def split_beta)
  show ?thesis
    unfolding a b by (auto simp: process_row_def Let_def)
qed

theorem first_row_excluded_witness:
  "''Python'' \<notin> fst (get_processed_keywords
       (Present sound [[''Python'', ''Q28865'', ''Python'', ''100.0'', [], [], [], [], []]])
       (Present (Condition (Some 2) True) [header_row, [''alpha''], [''beta'']]))
   \<and> fst (get_processed_keywords
       (Present sound [[''Python'', ''Q28865'', ''Python'', ''100.0'', [], [], [], [], []]])
       (Present (Condition (Some 2) True) [header_row, [''alpha''], [''beta'']]))
      = {strip ''alpha''}
   \<and> process_row sample_env 5 80
        (fst (get_processed_keywords
           (Present sound [[''Python'', ''Q28865'', ''Python'', ''100.0'', [], [], [], [], []]])
           (Present (Condition (Some 2) True) [header_row, [''alpha''], [''beta'']])))
        [''Python''] fresh
      = process_keyword sample_env 5 80 ''Python'' fresh"
proof -
  have sa: "strip ''alpha'' = ''alpha''" by (simp add: strip_def isspace_def)
  have r: "drop 1 (rows_read (Present (Condition (Some 2) True) [header_row, [''alpha''], [''beta'']]))
           = [[''alpha'']]"
    by (simp add: numeral_2_eq_2)
  have ff: "first_fields [] = {}" "first_fields [[''alpha'']] = {''alpha''}"
    by (auto simp: first_fields_def sa)
  note t = first_row_excluded [of sound "[''Python'', ''Q28865'', ''Python'', ''100.0'', [], [], [], [], []]"
          "[]" "Present (Condition (Some 2) True) [header_row, [''alpha''], [''beta'']]"
          "[''Python'']" sample_env 5 80 fresh]
  have p: "fst (get_processed_keywords
       (Present sound [[''Python'', ''Q28865'', ''Python'', ''100.0'', [], [], [], [], []]])
       (Present (Condition (Some 2) True) [header_row, [''alpha''], [''beta'']])) = {''alpha''}"
    using t by (simp add: r ff)
  show ?thesis
    using t by (simp add: p r ff strip_Python sa)
qed

text \<open>
  C10 as stated fails: a keyword with two records, the first of them in the first line,
  is in the set through the second.
\<close>

theorem repeated_keyword_counterexample:
  "''Python'' \<in> fst (get_processed_keywords
       (Present sound [[''Python'', ''Q28865'', ''Python'', ''100.0'', [], [], [], [], []],
                      [''Python'', ''Q15721'', ''Python'', ''100.0'', [], [], [], [], []]]) Absent)"
  by (auto simp: get_processed_keywords_def get_file_keywords_def strip_Python)


section \<open>Headers\<close>

text \<open>
  Where \<^verbatim>\<open>f.read()\<close> of a partition file does not raise, the header is written only
  into a blank file and no record appended after it is the header (the text of a number
  never being \<^verbatim>\<open>Match_Score\<close>): such a file holds at most one header row after any
  number of runs if it held at most one before, whatever the other partition is.
\<close>

lemma should_write_header_iff:
  "should_write_header f \<longleftrightarrow>
     f = Absent \<or> read_fails (condition_of f) \<or> list_all blank_row (content f)"
  by (cases f) (auto simp: should_write_header_def)

lemma extends_refl: "extends h h"
  by (simp add: extends_def)

lemma extends_trans: "extends h h' \<Longrightarrow> extends h' h'' \<Longrightarrow> extends h h''"
  by (fastforce simp: extends_def)

lemma extends_flush: "extends h h' \<Longrightarrow> extends h (flush h')"
  by (simp add: extends_def flush_def rows_of_def)

lemma extends_write_rows:
  "header_row \<notin> set rs \<Longrightarrow> extends h (snd (write_rows E h rs))"
proof -
  assume a: "header_row \<notin> set rs"
  have "header_row \<notin> set (takeWhile (writable E) rs)"
    using a by (auto dest: set_takeWhileD)
  then show ?thesis
    by (auto simp: write_rows_eq extends_def rows_of_def)
qed

lemma result_row_not_header:
  "\<forall>x. number_text E x \<noteq> ''Match_Score'' \<Longrightarrow> snd (fst (entity_result E keyword ent)) \<noteq> header_row"
  by (simp add: entity_result_def Let_def split_beta header_row_def)

lemma records_not_header:
  assumes "\<forall>x. number_text E x \<noteq> ''Match_Score''"
  shows "header_row \<notin> set (matched_records E keyword min_score ents)"
    and "header_row \<notin> set (unmatched_records E keyword min_score ents)"
  using result_row_not_header [OF assms, of keyword]
  by (auto simp: matched_records_def unmatched_records_def scored_def) (metis snd_conv)+

lemma process_keyword_extends:
  assumes "\<forall>x. number_text E x \<noteq> ''Match_Score''"
  shows "extends (matchedfile s) (matchedfile (process_keyword E wl ms keyword s))
       \<and> extends (unmatchedfile s) (unmatchedfile (process_keyword E wl ms keyword s))"
proof (cases "fst (resolve_entities E keyword ms (fst (search_wikidata_entities E keyword ''en'' wl)) [] [])")
  case (Inl e)
  then show ?thesis
    by (simp add: process_keyword_def Let_def split_beta extends_refl)
next
  case (Inr res)
  then obtain ents where e: "fst (search_wikidata_entities E keyword ''en'' wl) = map Obj ents"
    using resolve_entities_Inr_objs by blast
  have m: "extends (matchedfile s) (snd (write_rows E (matchedfile s) (matched_records E keyword ms ents)))"
    by (rule extends_write_rows) (rule records_not_header [OF assms])
  have u: "extends (unmatchedfile s) (snd (write_rows E (unmatchedfile s) (unmatched_records E keyword ms ents)))"
    by (rule extends_write_rows) (rule records_not_header [OF assms])
  show ?thesis
    using m u extends_flush [OF m] extends_flush [OF u]
    by (simp add: process_keyword_def Let_def split_beta e resolve_entities_objs extends_refl
          split: option.splits)
qed

lemma process_row_extends:
  assumes "\<forall>x. number_text E x \<noteq> ''Match_Score''"
  shows "extends (matchedfile s) (matchedfile (process_row E wl ms P row s))
       \<and> extends (unmatchedfile s) (unmatchedfile (process_row E wl ms P row s))"
  using process_keyword_extends [OF assms]
  by (simp add: process_row_def Let_def extends_refl)

lemma process_rows_extends:
  assumes "\<forall>x. number_text E x \<noteq> ''Match_Score''"
  shows "extends (matchedfile s) (matchedfile (process_rows E wl ms P rows s))
       \<and> extends (unmatchedfile s) (unmatchedfile (process_rows E wl ms P rows s))"
proof (induction rows arbitrary: s)
  case Nil
  then show ?case by (simp add: process_rows_def extends_refl)
next
  case (Cons row rows)
  show ?case
    using process_row_extends [OF assms, of s wl ms P row]
      Cons.IH [of "process_row E wl ms P row s"]
    by (auto simp: process_rows_Cons intro: extends_trans)
qed

lemma rows_of_open_partition:
  "rows_of (open_partition f) = content f @ (if should_write_header f then [header_row] else [])
   \<and> cond (open_partition f) = condition_of f"
  by (simp add: open_partition_def Let_def open_append_def flush_def rows_of_def)

lemma close_rows_of: "close h = Present (cond h) (rows_of h)"
  by (simp add: close_def rows_of_def)

lemma run_partitions:
  assumes "\<forall>x. number_text E x \<noteq> ''Match_Score''"
  shows "(\<exists>extra. matched_csv (process_keywords E input m u wl ms) =
            Present (condition_of m)
              (content m @ (if should_write_header m then [header_row] else []) @ extra)
          \<and> header_row \<notin> set extra)
       \<and> (\<exists>extra. unmatched_csv (process_keywords E input m u wl ms) =
            Present (condition_of u)
              (content u @ (if should_write_header u then [header_row] else []) @ extra)
          \<and> header_row \<notin> set extra)"
proof -
  let ?s = "run_state E input m u wl ms"
  have ex: "extends (open_partition m) (matchedfile ?s)
      \<and> extends (open_partition u) (unmatchedfile ?s)"
    unfolding run_state_def
    using process_rows_extends [OF assms, where
        s = "\<lparr>matchedfile = open_partition m, unmatchedfile = open_partition u,
              processed_count = 0, skipped_count = 0,
              trace = snd (get_processed_keywords m u) @ [Log Info ''start'']\<rparr>"
        and wl = wl and ms = ms and P = "fst (get_processed_keywords m u)" and rows = input]
    by simp
  have fm: "matched_csv (process_keywords E input m u wl ms) = close (matchedfile ?s)"
    and fu: "unmatched_csv (process_keywords E input m u wl ms) = close (unmatchedfile ?s)"
    by (simp_all add: process_keywords_run_state)
  from ex obtain e1 where e1: "rows_of (matchedfile ?s) = rows_of (open_partition m) @ e1"
    "header_row \<notin> set e1" "cond (matchedfile ?s) = cond (open_partition m)"
    unfolding extends_def by blast
  from ex obtain e2 where e2: "rows_of (unmatchedfile ?s) = rows_of (open_partition u) @ e2"
    "header_row \<notin> set e2" "cond (unmatchedfile ?s) = cond (open_partition u)"
    unfolding extends_def by blast
  have "matched_csv (process_keywords E input m u wl ms) =
            Present (condition_of m)
              (content m @ (if should_write_header m then [header_row] else []) @ e1)"
    using e1 rows_of_open_partition [of m] by (simp add: fm close_rows_of)
  moreover have "unmatched_csv (process_keywords E input m u wl ms) =
            Present (condition_of u)
              (content u @ (if should_write_header u then [header_row] else []) @ e2)"
    using e2 rows_of_open_partition [of u] by (simp add: fu close_rows_of)
  ultimately show ?thesis using e1(2) e2(2) by blast
qed

lemma blank_no_header:
  assumes "\<not> read_fails (condition_of f)" and "should_write_header f"
  shows "count_headers f = 0"
proof -
  have "list_all blank_row (content f)"
    using assms by (cases f) (auto simp: should_write_header_def)
  moreover have "\<not> blank_row header_row" by (simp add: blank_row_def header_row_def)
  ultimately have "header_row \<notin> set (content f)" by (auto simp: list_all_iff)
  then show ?thesis by (auto simp: count_headers_def filter_empty_conv)
qed

lemma count_headers_run:
  assumes "\<forall>x. number_text E x \<noteq> ''Match_Score''"
  shows "(\<not> read_fails (condition_of m) \<and> count_headers m \<le> 1 \<longrightarrow>
            \<not> read_fails (condition_of (matched_csv (process_keywords E input m u wl ms)))
            \<and> count_headers (matched_csv (process_keywords E input m u wl ms)) \<le> 1)
       \<and> (\<not> read_fails (condition_of u) \<and> count_headers u \<le> 1 \<longrightarrow>
            \<not> read_fails (condition_of (unmatched_csv (process_keywords E input m u wl ms)))
            \<and> count_headers (unmatched_csv (process_keywords E input m u wl ms)) \<le> 1)"
proof -
  have nohdr: "\<And>extra. header_row \<notin> set extra \<Longrightarrow> filter (\<lambda>r. r = header_row) extra = []"
    by (auto simp: filter_empty_conv)
  from run_partitions [OF assms, of input m u wl ms]
  obtain e1 e2 where
    m': "matched_csv (process_keywords E input m u wl ms) =
            Present (condition_of m) (content m @ (if should_write_header m then [header_row] else []) @ e1)"
    and h1: "header_row \<notin> set e1"
    and u': "unmatched_csv (process_keywords E input m u wl ms) =
            Present (condition_of u) (content u @ (if should_write_header u then [header_row] else []) @ e2)"
    and h2: "header_row \<notin> set e2"
    by blast
  show ?thesis
    using blank_no_header [of m] blank_no_header [of u] nohdr [OF h1] nohdr [OF h2]
    by (auto simp: m' u' count_headers_def)
qed

lemma one_header_per_readable_partition:
  assumes "\<forall>(E, input, wl, ms) \<in> set rs. \<forall>x. number_text E x \<noteq> ''Match_Score''"
  shows "(\<not> read_fails (condition_of m) \<and> count_headers m \<le> 1 \<longrightarrow>
            count_headers (fst (runs rs (m, u))) \<le> 1)
       \<and> (\<not> read_fails (condition_of u) \<and> count_headers u \<le> 1 \<longrightarrow>
            count_headers (snd (runs rs (m, u))) \<le> 1)"
  using assms
proof (induction rs arbitrary: m u)
  case Nil
  then show ?case by simp
next
  case (Cons r rs)
  obtain E input wl ms where r: "r = (E, input, wl, ms)" by (cases r) auto
  have nt: "\<forall>x. number_text E x \<noteq> ''Match_Score''" using Cons.prems r by auto
  have rest: "\<forall>(E, input, wl, ms) \<in> set rs. \<forall>x. number_text E x \<noteq> ''Match_Score''"
    using Cons.prems by auto
  from count_headers_run [OF nt, of m input u wl ms]
  show ?case
    using Cons.IH [OF rest, of "matched_csv (process_keywords E input m u wl ms)"
                     "unmatched_csv (process_keywords E input m u wl ms)"]
    by (simp add: r Let_def)
qed

text \<open>
  C7: the header is to be written only into a partition file that is absent or empty, so
  that no file ever holds two. For a file that exists, holds a header and raises when it
  is read, \<^verbatim>\<open>should_write_header\<close> answers \<^verbatim>\<open>True\<close> from its \<^verbatim>\<open>except\<close> branch,
  against its own docstring and the comment \<^verbatim>\<open>Write headers only if files are new/empty\<close>,
  and the run appends a second header.
\<close>

theorem second_header_on_unreadable_file:
  "should_write_header (Present (Condition (Some 0) True) [header_row])
   \<and> \<not> list_all blank_row [header_row]
   \<and> matched_csv (process_keywords sample_env []
        (Present (Condition (Some 0) True) [header_row]) Absent 5 80)
       = Present (Condition (Some 0) True) [header_row, header_row]
   \<and> count_headers (matched_csv (process_keywords sample_env []
        (Present (Condition (Some 0) True) [header_row]) Absent 5 80)) = 2"
proof -
  have b: "\<not> list_all blank_row [header_row]"
    by (simp add: blank_row_def header_row_def)
  have r: "matched_csv (process_keywords sample_env []
        (Present (Condition (Some 0) True) [header_row]) Absent 5 80)
       = Present (Condition (Some 0) True) [header_row, header_row]"
    by (simp add: process_keywords_def get_processed_keywords_def get_file_keywords_def
          process_rows_def open_partition_def should_write_header_def open_append_def
          flush_def close_def Let_def)
  show ?thesis
    using b by (simp add: r count_headers_def should_write_header_def)
qed


end
